theory Spec2Isabelle
  imports Complex_Main "HOL-Library.Word"
begin

section \<open>JavaScript values used by the upload pipeline\<close>

text \<open>
  A JavaScript number is a finite value, one of the two infinities, or NaN. A finite
  double is represented by the rational number it stands for: the rounding of a
  quotient to the nearest double and the sign of zero are not modelled. Neither changes
  whether a value is zero, infinite or NaN, which is all the code below tests.
\<close>

datatype jsnum = Fin rat | PosInf | NegInf | NaN

text \<open>
  A property that is \<open>undefined\<close> or \<open>null\<close> is \<open>None\<close>: the code treats the two
  alike (both are falsy, both end an optional chain \<open>?.\<close>, both are stored as SQL NULL).
\<close>

type_synonym buffer = "8 word list"

definition truthy_num :: "jsnum option \<Rightarrow> bool" where
  "truthy_num v =
     (case v of
        None \<Rightarrow> False
      | Some (Fin r) \<Rightarrow> r \<noteq> 0
      | Some PosInf \<Rightarrow> True
      | Some NegInf \<Rightarrow> True
      | Some NaN \<Rightarrow> False)"

definition truthy_str :: "string option \<Rightarrow> bool" where
  "truthy_str v = (case v of None \<Rightarrow> False | Some s \<Rightarrow> s \<noteq> [])"

text \<open>\<open>a || b\<close> on numbers and on strings: the left operand when it is truthy.\<close>

definition or_num :: "jsnum option \<Rightarrow> jsnum option \<Rightarrow> jsnum option" where
  "or_num a b = (if truthy_num a then a else b)"

definition or_str :: "string option \<Rightarrow> string option \<Rightarrow> string option" where
  "or_str a b = (if truthy_str a then a else b)"

text \<open>\<open>arr[i]\<close>: \<open>undefined\<close> beyond the end of the array.\<close>

definition index :: "'a list \<Rightarrow> nat \<Rightarrow> 'a option" where
  "index xs i = (if i < length xs then Some (xs ! i) else None)"

text \<open>
  \<open>a / b\<close> on the components of an EXIF rational, which are integers; an
  \<open>undefined\<close> operand converts to NaN. Division by zero does not throw in JavaScript.
\<close>

definition js_div :: "int option \<Rightarrow> int option \<Rightarrow> jsnum" where
  "js_div a b =
     (case a of
        None \<Rightarrow> NaN
      | Some n \<Rightarrow>
          (case b of
             None \<Rightarrow> NaN
           | Some d \<Rightarrow>
               if d \<noteq> 0 then Fin (of_int n / of_int d)
               else if 0 < n then PosInf
               else if n < 0 then NegInf
               else NaN))"

text \<open>\<open>Array.prototype.join\<close> on strings.\<close>

fun join :: "string \<Rightarrow> string list \<Rightarrow> string" where
  "join sep [] = []"
| "join sep [x] = x"
| "join sep (x # y # ys) = x @ sep @ join sep (y # ys)"

section \<open>Metadata Extractor\<close>

text \<open>
  The tags ExifReader returns with \<open>expanded: true\<close>: three groups, each tag with the
  \<open>value\<close> and the \<open>description\<close> the code reads. A rational tag's value is the array
  \<open>[numerator, denominator]\<close>.
\<close>

record 'v tag =
  tvalue :: "'v option"
  description :: "string option"

record exif_group =
  DateTimeOriginal :: "unit tag option"
  Make :: "unit tag option"
  Model :: "unit tag option"
  LensModel :: "unit tag option"
  FNumber :: "int list tag option"
  FocalLength :: "int list tag option"
  FocalLengthIn35mmFilm :: "jsnum tag option"
  ExposureTime :: "unit tag option"
  ISOSpeedRatings :: "jsnum tag option"
  ExposureBiasValue :: "int list tag option"
  PixelXDimension :: "jsnum tag option"
  PixelYDimension :: "jsnum tag option"
  Orientation :: "jsnum tag option"
  ColorSpace :: "unit tag option"
  WhiteBalance :: "unit tag option"

record gps_group =
  Latitude :: "jsnum option"
  Longitude :: "jsnum option"
  Altitude :: "jsnum option"

record file_group =
  Image_Width :: "jsnum tag option"
  Image_Height :: "jsnum tag option"

record tags =
  exif :: "exif_group option"
  gps :: "gps_group option"
  file' :: "file_group option"

text \<open>
  The library calls of \<open>extractExif\<close>: \<open>ExifReader.load\<close> and \<open>JSON.stringify\<close>, each
  returning its value (\<open>Inr\<close>) or the message of the error it throws (\<open>Inl\<close>).
\<close>

record exifreader =
  load :: "buffer \<Rightarrow> string + tags"
  stringify :: "tags \<Rightarrow> string + string"

text \<open>The record \<open>extractExif\<close> returns; the upload handler later sets \<open>location_name\<close>.\<close>

record exif_data =
  date_taken :: "string option"
  camera_make :: "string option"
  camera_model :: "string option"
  lens_model :: "string option"
  focal_length :: "jsnum option"
  focal_length_35mm :: "jsnum option"
  aperture :: "jsnum option"
  shutter_speed :: "string option"
  iso :: "jsnum option"
  exposure_compensation :: "jsnum option"
  gps_latitude :: "jsnum option"
  gps_longitude :: "jsnum option"
  gps_altitude :: "jsnum option"
  width :: "jsnum option"
  height :: "jsnum option"
  orientation :: "jsnum option"
  color_space :: "string option"
  white_balance :: "string option"
  exif_json :: "string option"
  location_name :: "string option"

text \<open>\<open>{ exif_json: null }\<close>, the record of the \<open>catch\<close> branch: every other field is absent.\<close>

definition degraded :: exif_data where
  "degraded =
     \<lparr>date_taken = None, camera_make = None, camera_model = None, lens_model = None,
      focal_length = None, focal_length_35mm = None, aperture = None, shutter_speed = None,
      iso = None, exposure_compensation = None, gps_latitude = None, gps_longitude = None,
      gps_altitude = None, width = None, height = None, orientation = None,
      color_space = None, white_balance = None, exif_json = None, location_name = None\<rparr>"

definition is_digit :: "char \<Rightarrow> bool" where
  "is_digit c = (48 \<le> (of_char c :: nat) \<and> (of_char c :: nat) \<le> 57)"

text \<open>\<open>dt.replace(/^(\d{4}):(\d{2}):(\d{2})/, '$1-$2-$3')\<close>\<close>

definition replace_date_prefix :: "string \<Rightarrow> string" where
  "replace_date_prefix dt =
     (if 10 \<le> length dt \<and> list_all is_digit (take 4 dt) \<and> dt ! 4 = CHR '':''
         \<and> list_all is_digit (take 2 (drop 5 dt)) \<and> dt ! 7 = CHR '':''
         \<and> list_all is_digit (take 2 (drop 8 dt))
      then take 4 dt @ ''-'' @ take 2 (drop 5 dt) @ ''-'' @ take 2 (drop 8 dt) @ drop 10 dt
      else dt)"

text \<open>\<open>s.replace(' ', 'T')\<close>: the first occurrence only.\<close>

fun replace_first :: "char \<Rightarrow> char \<Rightarrow> string \<Rightarrow> string" where
  "replace_first a b [] = []"
| "replace_first a b (c # cs) = (if c = a then b # cs else c # replace_first a b cs)"

text \<open>The optional chains \<open>tags.exif?.X?.value\<close> and \<open>tags.exif?.X?.description\<close>.\<close>

definition exif_value :: "tags \<Rightarrow> (exif_group \<Rightarrow> 'v tag option) \<Rightarrow> 'v option" where
  "exif_value t sel = Option.bind (Option.bind (exif t) sel) tvalue"

definition exif_description :: "tags \<Rightarrow> (exif_group \<Rightarrow> 'v tag option) \<Rightarrow> string option" where
  "exif_description t sel = Option.bind (Option.bind (exif t) sel) description"

definition file_value :: "tags \<Rightarrow> (file_group \<Rightarrow> 'v tag option) \<Rightarrow> 'v option" where
  "file_value t sel = Option.bind (Option.bind (file' t) sel) tvalue"

definition extractExif :: "exifreader \<Rightarrow> buffer \<Rightarrow> string \<Rightarrow> exif_data" where
  "extractExif lib buf filename =
     (case load lib buf of
        Inl err \<Rightarrow> degraded
      | Inr t \<Rightarrow>
          (let dateTaken =
                 (if truthy_str (exif_description t DateTimeOriginal)
                  then map_option (\<lambda>dt. replace_first CHR '' '' CHR ''T'' (replace_date_prefix dt))
                         (exif_description t DateTimeOriginal)
                  else None);
               has_gps = (truthy_num (Option.bind (gps t) Latitude)
                            \<and> truthy_num (Option.bind (gps t) Longitude));
               gpsLat = (if has_gps then Option.bind (gps t) Latitude else None);
               gpsLon = (if has_gps then Option.bind (gps t) Longitude else None);
               gpsAlt = (if has_gps then or_num (Option.bind (gps t) Altitude) None else None);
               aperture' =
                 (case exif_value t FNumber of
                    None \<Rightarrow> None
                  | Some v \<Rightarrow> Some (js_div (index v 0) (index v 1)));
               focalLength =
                 (case exif_value t FocalLength of
                    None \<Rightarrow> None
                  | Some v \<Rightarrow> Some (js_div (index v 0) (index v 1)))
           in case stringify lib t of
                Inl err \<Rightarrow> degraded
              | Inr json \<Rightarrow>
                  \<lparr>date_taken = dateTaken,
                   camera_make = or_str (exif_description t Make) None,
                   camera_model = or_str (exif_description t Model) None,
                   lens_model = or_str (exif_description t LensModel) None,
                   focal_length = focalLength,
                   focal_length_35mm = or_num (exif_value t FocalLengthIn35mmFilm) None,
                   aperture = aperture',
                   shutter_speed = or_str (exif_description t ExposureTime) None,
                   iso = or_num (exif_value t ISOSpeedRatings) None,
                   exposure_compensation =
                     or_num
                       (Some (js_div (Option.bind (exif_value t ExposureBiasValue) (\<lambda>v. index v 0))
                                     (Option.bind (exif_value t ExposureBiasValue) (\<lambda>v. index v 1))))
                       None,
                   gps_latitude = gpsLat,
                   gps_longitude = gpsLon,
                   gps_altitude = gpsAlt,
                   width = or_num (or_num (file_value t Image_Width) (exif_value t PixelXDimension)) None,
                   height = or_num (or_num (file_value t Image_Height) (exif_value t PixelYDimension)) None,
                   orientation = or_num (exif_value t Orientation) None,
                   color_space = or_str (exif_description t ColorSpace) None,
                   white_balance = or_str (exif_description t WhiteBalance) None,
                   exif_json = Some json,
                   location_name = None\<rparr>))"

section \<open>Image Normalizer\<close>

text \<open>
  The two calls into sharp: \<open>sharp(buf).metadata()\<close>, giving the intrinsic width and
  height, and \<open>sharp(buf).resize(w, h, {fit: 'inside', withoutEnlargement: true})
  .jpeg({quality: 90, mozjpeg: true}).toBuffer()\<close>; each resolves or rejects.
\<close>

record sharp =
  metadata :: "buffer \<Rightarrow> string + nat \<times> nat"
  resize_jpeg :: "buffer \<Rightarrow> nat \<Rightarrow> nat \<Rightarrow> string + buffer"

record resize_result =
  buffer :: buffer
  resized :: bool
  originalSize :: "nat option"
  newSize :: "nat option"
  dimensions :: "(nat \<times> nat) option"
  error :: "string option"

definition MAX_FILE_SIZE :: nat where
  "MAX_FILE_SIZE = 20 * 1024 * 1024"

definition MAX_DIMENSION :: nat where
  "MAX_DIMENSION = 3000"

text \<open>\<open>Math.round\<close>: the nearest integer, a half rounded up.\<close>

definition Math_round :: "rat \<Rightarrow> int" where
  "Math_round x = \<lfloor>x + 1 / 2\<rfloor>"

definition resizeIfNeeded :: "sharp \<Rightarrow> buffer \<Rightarrow> string \<Rightarrow> resize_result" where
  "resizeIfNeeded sh fileBuffer filename =
     (if length fileBuffer \<le> MAX_FILE_SIZE
      then \<lparr>buffer = fileBuffer, resized = False, originalSize = None, newSize = None,
            dimensions = None, error = None\<rparr>
      else
        (case metadata sh fileBuffer of
           Inl err \<Rightarrow>
             \<lparr>buffer = fileBuffer, resized = False, originalSize = None, newSize = None,
              dimensions = None, error = Some err\<rparr>
         | Inr (w0, h0) \<Rightarrow>
             (let (w, h) =
                    (if w0 > h0 \<and> w0 > MAX_DIMENSION
                     then (MAX_DIMENSION,
                           nat (Math_round (of_nat h0 * (of_nat MAX_DIMENSION / of_nat w0))))
                     else if h0 > MAX_DIMENSION
                     then (nat (Math_round (of_nat w0 * (of_nat MAX_DIMENSION / of_nat h0))),
                           MAX_DIMENSION)
                     else (w0, h0))
              in case resize_jpeg sh fileBuffer w h of
                   Inl err \<Rightarrow>
                     \<lparr>buffer = fileBuffer, resized = False, originalSize = None,
                      newSize = None, dimensions = None, error = Some err\<rparr>
                 | Inr resizedBuffer \<Rightarrow>
                     \<lparr>buffer = resizedBuffer, resized = True,
                      originalSize = Some (length fileBuffer),
                      newSize = Some (length resizedBuffer),
                      dimensions = Some (w, h), error = None\<rparr>)))"

section \<open>Season, caption and description\<close>

text \<open>
  The two uses of the platform's \<open>Date\<close>: \<open>new Date(s).getMonth()\<close>, which is NaN
  (\<open>None\<close>) for an invalid date, and
  \<open>new Date(s).toLocaleDateString('en-US', {month: 'long', year: 'numeric'})\<close>.
\<close>

record date_lib =
  getMonth :: "string \<Rightarrow> nat option"
  toLocaleDateString :: "string \<Rightarrow> string"

text \<open>A comparison with NaN is false, so an invalid date falls through to Winter.\<close>

definition getSeason :: "date_lib \<Rightarrow> string option \<Rightarrow> string option" where
  "getSeason lib dateString =
     (case dateString of
        None \<Rightarrow> None
      | Some s \<Rightarrow>
          if s = [] then None
          else
            (case getMonth lib s of
               None \<Rightarrow> Some ''Winter''
             | Some month \<Rightarrow>
                 if month \<ge> 2 \<and> month \<le> 4 then Some ''Spring''
                 else if month \<ge> 5 \<and> month \<le> 7 then Some ''Summer''
                 else if month \<ge> 8 \<and> month \<le> 10 then Some ''Fall''
                 else Some ''Winter''))"

definition is_space :: "char \<Rightarrow> bool" where
  "is_space c = ((of_char c :: nat) \<in> {9, 10, 11, 12, 13, 32, 160})"

definition trim :: "string \<Rightarrow> string" where
  "trim s = rev (dropWhile is_space (rev (dropWhile is_space s)))"

text \<open>
  \<open>configured\<close> says whether the Anthropic client exists (the API key is set);
  \<open>created\<close> is the outcome of \<open>anthropic.messages.create\<close>: the error it throws, or the
  \<open>text\<close> of each content block of the response (\<open>None\<close> for a block without text).
\<close>

definition analyzeImageWithVision ::
  "bool \<Rightarrow> string + string option list \<Rightarrow> buffer \<Rightarrow> string \<Rightarrow> string option" where
  "analyzeImageWithVision configured created imageBuffer mimeType =
     (if \<not> configured then None
      else
        (case created of
           Inl err \<Rightarrow> None
         | Inr content \<Rightarrow> map_option trim (Option.bind (index content 0) (\<lambda>text. text))))"

text \<open>
  \<open>if (x) parts.push(x)\<close> for a string that may be absent or empty. The separator
  \<open>' \<cdot> '\<close> has the middle dot U+00B7 between two spaces.
\<close>

definition push_if :: "string option \<Rightarrow> string list" where
  "push_if v = (case v of None \<Rightarrow> [] | Some s \<Rightarrow> if s = [] then [] else [s])"

definition middle_dot_sep :: string where
  "middle_dot_sep = [CHR '' '', char_of (183 :: nat), CHR '' '']"

record location =
  display_name :: "string option"
  city :: "string option"
  state :: "string option"
  country :: "string option"
  country_code :: "string option"

definition generateSmartDescription ::
  "date_lib \<Rightarrow> exif_data \<Rightarrow> location option \<Rightarrow> string option \<Rightarrow> string option" where
  "generateSmartDescription lib exifData loc visionCaption =
     (let parts1 = push_if (Option.bind loc city);
          season = getSeason lib (date_taken exifData);
          parts2 = parts1 @ push_if season;
          parts3 = parts2 @ push_if visionCaption;
          parts4 =
            (if length parts3 = 0 \<and> truthy_str (date_taken exifData)
             then parts3 @ [toLocaleDateString lib (case date_taken exifData of Some d \<Rightarrow> d | None \<Rightarrow> [])]
             else parts3)
      in or_str (Some (join middle_dot_sep parts4)) None)"

section \<open>Geocoder\<close>

text \<open>
  The body Nominatim answers with, as far as the code reads it: JSON \<open>null\<close>, or a
  value with an optional \<open>address\<close> and an optional \<open>display_name\<close>.
\<close>

record address =
  a_city :: "string option"
  a_town :: "string option"
  a_village :: "string option"
  a_state :: "string option"
  a_country :: "string option"
  a_country_code :: "string option"

datatype geo_body = GeoNull | GeoBody "address option" "string option"

text \<open>
  \<open>looked_up\<close> is the outcome of the request: \<open>Inl\<close> when \<open>fetch\<close> rejects (a network
  error), \<open>Inr (Inl _)\<close> when \<open>response.json()\<close> rejects (the body is not JSON),
  \<open>Inr (Inr body)\<close> otherwise. Reading \<open>data.address\<close> of \<open>null\<close> throws a TypeError,
  which the \<open>catch\<close> turns into \<open>null\<close> as well.
\<close>

definition reverseGeocode ::
  "string + string + geo_body \<Rightarrow> jsnum option \<Rightarrow> jsnum option \<Rightarrow> location option" where
  "reverseGeocode looked_up lat lon =
     (case looked_up of
        Inl err \<Rightarrow> None
      | Inr (Inl err) \<Rightarrow> None
      | Inr (Inr GeoNull) \<Rightarrow> None
      | Inr (Inr (GeoBody addr name)) \<Rightarrow>
          (let place = or_str (or_str (Option.bind addr a_city) (Option.bind addr a_town))
                         (Option.bind addr a_village);
               parts = push_if place @ push_if (Option.bind addr a_state)
                         @ push_if (Option.bind addr a_country)
           in Some \<lparr>display_name = or_str (Some (join '', '' parts)) name,
                    city = or_str place None,
                    state = or_str (Option.bind addr a_state) None,
                    country = or_str (Option.bind addr a_country) None,
                    country_code = or_str (Option.bind addr a_country_code) None\<rparr>))"

section \<open>Metadata Store\<close>

text \<open>
  The table \<open>photos\<close>, one field per column; \<open>None\<close> is SQL NULL. \<open>sqlite_sequence\<close>
  is the largest row id the AUTOINCREMENT key has handed out.
\<close>

record photo_row =
  col_id :: nat
  col_meural_id :: "int option"
  col_original_filename :: "string option"
  col_uploaded_at :: "string option"
  col_date_taken :: "string option"
  col_camera_make :: "string option"
  col_camera_model :: "string option"
  col_lens_model :: "string option"
  col_focal_length :: "jsnum option"
  col_focal_length_35mm :: "jsnum option"
  col_aperture :: "jsnum option"
  col_shutter_speed :: "string option"
  col_iso :: "jsnum option"
  col_exposure_compensation :: "jsnum option"
  col_gps_latitude :: "jsnum option"
  col_gps_longitude :: "jsnum option"
  col_gps_altitude :: "jsnum option"
  col_location_name :: "string option"
  col_width :: "jsnum option"
  col_height :: "jsnum option"
  col_orientation :: "jsnum option"
  col_color_space :: "string option"
  col_white_balance :: "string option"
  col_exif_json :: "string option"

record database =
  photos :: "photo_row list"
  sqlite_sequence :: nat

text \<open>Binding a number to a statement parameter: SQLite stores NaN as NULL.\<close>

definition bind_num :: "jsnum option \<Rightarrow> jsnum option" where
  "bind_num v = (case v of Some NaN \<Rightarrow> None | _ \<Rightarrow> v)"

text \<open>
  \<open>INSERT OR REPLACE INTO photos (...21 columns...) VALUES (...)\<close>: \<open>meural_id\<close> is
  UNIQUE, so the rows that hold the new \<open>meural_id\<close> are deleted before the new row
  is inserted. The columns the statement does not list take their defaults: a fresh
  \<open>id\<close>, the current timestamp \<open>now\<close> for \<open>uploaded_at\<close>, NULL for \<open>location_name\<close>.
\<close>

definition savePhotoExif :: "string \<Rightarrow> database \<Rightarrow> int \<Rightarrow> string \<Rightarrow> exif_data \<Rightarrow> database" where
  "savePhotoExif now db meuralId filename exifData =
     \<lparr>photos =
        filter (\<lambda>r. col_meural_id r \<noteq> Some meuralId) (photos db) @
        [\<lparr>col_id = Suc (sqlite_sequence db),
          col_meural_id = Some meuralId,
          col_original_filename = Some filename,
          col_uploaded_at = Some now,
          col_date_taken = date_taken exifData,
          col_camera_make = camera_make exifData,
          col_camera_model = camera_model exifData,
          col_lens_model = lens_model exifData,
          col_focal_length = bind_num (focal_length exifData),
          col_focal_length_35mm = bind_num (focal_length_35mm exifData),
          col_aperture = bind_num (aperture exifData),
          col_shutter_speed = shutter_speed exifData,
          col_iso = bind_num (iso exifData),
          col_exposure_compensation = bind_num (exposure_compensation exifData),
          col_gps_latitude = bind_num (gps_latitude exifData),
          col_gps_longitude = bind_num (gps_longitude exifData),
          col_gps_altitude = bind_num (gps_altitude exifData),
          col_location_name = None,
          col_width = bind_num (width exifData),
          col_height = bind_num (height exifData),
          col_orientation = bind_num (orientation exifData),
          col_color_space = color_space exifData,
          col_white_balance = white_balance exifData,
          col_exif_json = exif_json exifData\<rparr>],
      sqlite_sequence = Suc (sqlite_sequence db)\<rparr>"


section \<open>Upload Orchestrator\<close>

record upload_file =
  path :: string
  originalname :: string
  mimetype :: string

text \<open>
  The body of the vendor's answer to the upload, as far as the handler reads it:
  JSON \<open>null\<close>, or a value whose \<open>data?.id\<close> is the given identifier (if any).
\<close>

datatype upload_body = BodyNull | Body "int option"

record upload_response =
  ok :: bool
  json :: "string + upload_body"

text \<open>
  What the outside world does while one file is processed, in the order of the calls:
  each field is the outcome of one call, an error message standing for a throw.
\<close>

record file_env =
  readFileSync :: "string + buffer"
  fetch_items :: "string + upload_response"
  nominatim :: "string + string + geo_body"
  messages_create :: "string + string option list"
  put_item :: "string option"
  current_timestamp :: string
  stmt_run :: "string option"
  unlinkSync :: "string option"

record services =
  exif_lib :: exifreader
  sharp_lib :: sharp
  dates :: date_lib
  anthropic :: bool

datatype error_value = ErrorBody upload_body | ErrorMessage string

record exif_summary =
  s_date_taken :: "string option"
  s_camera :: "string option"
  s_lens :: "string option"
  s_aperture :: "jsnum option"
  s_shutter :: "string option"
  s_iso :: "jsnum option"
  s_gps :: bool
  s_location :: "string option"
  s_season :: "string option"

text \<open>
  The \<open>resized\<close> field of an entry holds the two sizes in bytes; their display as
  megabytes with one decimal (\<open>toFixed(1)\<close>) is not modelled.
\<close>

record resized_info =
  from_size :: "nat option"
  to_size :: "nat option"
  res_dimensions :: "(nat \<times> nat) option"

record result_entry =
  filename :: string
  success :: bool
  meural_id :: "int option"
  data :: "upload_body option"
  res_resized :: "resized_info option"
  res_exif :: "exif_summary option"
  vision_caption :: "string option"
  smart_description :: "string option"
  res_error :: "error_value option"

text \<open>The entry the \<open>catch\<close> of the loop body pushes.\<close>

definition failure_entry :: "upload_file \<Rightarrow> string \<Rightarrow> result_entry" where
  "failure_entry f msg =
     \<lparr>filename = originalname f, success = False, meural_id = None, data = None,
      res_resized = None, res_exif = None, vision_caption = None, smart_description = None,
      res_error = Some (ErrorMessage msg)\<rparr>"

text \<open>
  The enrichment block, entered when \<open>response.ok && data.data?.id\<close>: geocoding,
  caption, description, the best-effort update of the remote item (its failure is
  caught and logged, and has no effect here), and the write to the store. The result
  is the error \<open>savePhotoExif\<close> throws, or the new state.
\<close>

record enriched =
  e_location :: "location option"
  e_vision :: "string option"
  e_smart :: "string option"
  e_exif :: exif_data
  e_db :: database

definition enrich ::
  "services \<Rightarrow> database \<Rightarrow> upload_file \<Rightarrow> file_env \<Rightarrow> buffer \<Rightarrow> exif_data \<Rightarrow> int
     \<Rightarrow> string + enriched" where
  "enrich cx db f ev fileBuffer exifData item_id =
     (let loc =
            (if truthy_num (gps_latitude exifData) \<and> truthy_num (gps_longitude exifData)
             then reverseGeocode (nominatim ev) (gps_latitude exifData) (gps_longitude exifData)
             else None);
          exifData' =
            (case loc of
               None \<Rightarrow> exifData
             | Some l \<Rightarrow> exifData\<lparr>location_name := display_name l\<rparr>);
          visionCaption =
            analyzeImageWithVision (anthropic cx) (messages_create ev) fileBuffer (mimetype f);
          smartDescription = generateSmartDescription (dates cx) exifData' loc visionCaption
      in case stmt_run ev of
           Some err \<Rightarrow> Inl err
         | None \<Rightarrow>
             Inr \<lparr>e_location = loc, e_vision = visionCaption, e_smart = smartDescription,
                  e_exif = exifData',
                  e_db = savePhotoExif (current_timestamp ev) db item_id (originalname f) exifData'\<rparr>)"

text \<open>
  The object pushed on \<open>results\<close> at the end of the \<open>try\<close> block. \<open>en\<close> is what the
  enrichment block produced, \<open>None\<close> when it was skipped; \<open>exifData\<close> is the extracted
  record, which the enrichment block may have given a \<open>location_name\<close>.
\<close>

definition pushed_entry ::
  "services \<Rightarrow> upload_file \<Rightarrow> upload_response \<Rightarrow> upload_body \<Rightarrow> resize_result \<Rightarrow> exif_data
     \<Rightarrow> enriched option \<Rightarrow> result_entry" where
  "pushed_entry cx f response body resizeResult exifData en =
     (let loc = Option.bind en e_location
      in \<lparr>filename = originalname f,
          success = ok response,
          meural_id =
            (if ok response then (case body of BodyNull \<Rightarrow> None | Body i \<Rightarrow> i) else None),
          data = (if ok response then Some body else None),
          res_resized =
            (if resized resizeResult
             then Some \<lparr>from_size = originalSize resizeResult,
                        to_size = newSize resizeResult,
                        res_dimensions = dimensions resizeResult\<rparr>
             else None),
          res_exif =
            (if ok response
             then Some \<lparr>s_date_taken = date_taken exifData,
                        s_camera = camera_model exifData,
                        s_lens = lens_model exifData,
                        s_aperture = aperture exifData,
                        s_shutter = shutter_speed exifData,
                        s_iso = iso exifData,
                        s_gps = truthy_num (gps_latitude exifData),
                        s_location =
                          or_str (or_str (Option.bind loc city) (Option.bind loc display_name)) None,
                        s_season = getSeason (dates cx) (date_taken exifData)\<rparr>
             else None),
          vision_caption = Option.bind en e_vision,
          smart_description = Option.bind en e_smart,
          res_error = (if ok response then None else Some (ErrorBody body))\<rparr>)"

text \<open>
  The \<open>try\<close> block of the loop body. It returns the error it threw (if any), the
  store, and the entries it pushed on \<open>results\<close> before it ended. Reading \<open>data.data\<close>
  of a \<open>null\<close> body throws a TypeError. The temporary file is unlinked after the push,
  inside the \<open>try\<close>.
\<close>

definition try_block ::
  "services \<Rightarrow> database \<Rightarrow> upload_file \<Rightarrow> file_env
     \<Rightarrow> string option \<times> database \<times> result_entry list" where
  "try_block cx db f ev =
     (case readFileSync ev of
        Inl err \<Rightarrow> (Some err, db, [])
      | Inr fileBuffer0 \<Rightarrow>
          (let exifData = extractExif (exif_lib cx) fileBuffer0 (originalname f);
               resizeResult = resizeIfNeeded (sharp_lib cx) fileBuffer0 (originalname f);
               fileBuffer = buffer resizeResult
           in case fetch_items ev of
                Inl err \<Rightarrow> (Some err, db, [])
              | Inr response \<Rightarrow>
                  (case json response of
                     Inl err \<Rightarrow> (Some err, db, [])
                   | Inr body \<Rightarrow>
                       (if ok response \<and> body = BodyNull
                        then (Some ''Cannot read properties of null'', db, [])
                        else
                          (case (case body of BodyNull \<Rightarrow> None | Body i \<Rightarrow> i) of
                             None \<Rightarrow>
                               (unlinkSync ev, db,
                                [pushed_entry cx f response body resizeResult exifData None])
                           | Some item_id \<Rightarrow>
                               if ok response \<and> item_id \<noteq> 0
                               then
                                 (case enrich cx db f ev fileBuffer exifData item_id of
                                    Inl err \<Rightarrow> (Some err, db, [])
                                  | Inr en \<Rightarrow>
                                      (unlinkSync ev, e_db en,
                                       [pushed_entry cx f response body resizeResult
                                          (e_exif en) (Some en)]))
                               else
                                 (unlinkSync ev, db,
                                  [pushed_entry cx f response body resizeResult exifData None]))))))"

text \<open>One iteration of \<open>for (const file of req.files)\<close>: the \<open>try\<close> block and its \<open>catch\<close>.\<close>

definition process_file ::
  "services \<Rightarrow> database \<Rightarrow> upload_file \<Rightarrow> file_env \<Rightarrow> database \<times> result_entry list" where
  "process_file cx db f ev =
     (case try_block cx db f ev of
        (None, db', pushed) \<Rightarrow> (db', pushed)
      | (Some msg, db', pushed) \<Rightarrow> (db', pushed @ [failure_entry f msg]))"

fun upload_loop ::
  "services \<Rightarrow> (upload_file \<times> file_env) list \<Rightarrow> database \<times> result_entry list
     \<Rightarrow> database \<times> result_entry list" where
  "upload_loop cx [] st = st"
| "upload_loop cx ((f, ev) # rest) (db, results) =
     (case process_file cx db f ev of
        (db', pushed) \<Rightarrow> upload_loop cx rest (db', results @ pushed))"

text \<open>
  \<open>app.post('/api/items/upload')\<close>: \<open>token\<close> is the outcome of \<open>getToken()\<close>, \<open>files\<close>
  is \<open>req.files\<close> (absent when the request is not multipart), each file paired with
  what the outside world does while it is processed. \<open>Inl\<close> is the 500 response with
  the error message, \<open>Inr\<close> the 200 response with the \<open>results\<close>.
\<close>

definition upload ::
  "services \<Rightarrow> database \<Rightarrow> string + string \<Rightarrow> (upload_file \<times> file_env) list option
     \<Rightarrow> database \<times> (string + result_entry list)" where
  "upload cx db token files =
     (case token of
        Inl err \<Rightarrow> (db, Inl err)
      | Inr tok \<Rightarrow>
          (case files of
             None \<Rightarrow> (db, Inl ''req.files is not iterable'')
           | Some fs \<Rightarrow>
               (case upload_loop cx fs (db, []) of
                  (db', results) \<Rightarrow> (db', Inr results))))"

section \<open>Sample inputs\<close>

text \<open>Concrete libraries, tags and outcomes, used to instantiate the theorems below.\<close>

definition no_exif :: exif_group where
  "no_exif =
     \<lparr>DateTimeOriginal = None, Make = None, Model = None, LensModel = None, FNumber = None,
      FocalLength = None, FocalLengthIn35mmFilm = None, ExposureTime = None,
      ISOSpeedRatings = None, ExposureBiasValue = None, PixelXDimension = None,
      PixelYDimension = None, Orientation = None, ColorSpace = None, WhiteBalance = None\<rparr>"

definition rational_tag :: "int list \<Rightarrow> int list tag" where
  "rational_tag v = \<lparr>tvalue = Some v, description = None\<rparr>"

definition exif_only :: "exif_group \<Rightarrow> tags" where
  "exif_only g = \<lparr>exif = Some g, gps = None, file' = None\<rparr>"

definition gps_only :: "gps_group \<Rightarrow> tags" where
  "gps_only g = \<lparr>exif = None, gps = Some g, file' = None\<rparr>"

text \<open>A reader that parses every buffer to the tags \<open>t\<close>, and one that always throws.\<close>

definition reader_of :: "tags \<Rightarrow> exifreader" where
  "reader_of t = \<lparr>load = (\<lambda>buf. Inr t), stringify = (\<lambda>t. Inr ''{}'')\<rparr>"


text \<open>
  A \<open>Date\<close> for strings of the shape \<open>YYYY-MM-DDTHH:MM:SS\<close>, the shape \<open>extractExif\<close>
  produces: the month is read from the sixth and seventh character.
\<close>

definition digit_val :: "char \<Rightarrow> nat" where
  "digit_val c = (of_char c :: nat) - 48"

definition month_names :: "string list" where
  "month_names =
     [''January'', ''February'', ''March'', ''April'', ''May'', ''June'', ''July'',
      ''August'', ''September'', ''October'', ''November'', ''December'']"

definition iso_month :: "string \<Rightarrow> nat option" where
  "iso_month s =
     (if 7 \<le> length s \<and> is_digit (s ! 5) \<and> is_digit (s ! 6)
         \<and> 1 \<le> 10 * digit_val (s ! 5) + digit_val (s ! 6)
         \<and> 10 * digit_val (s ! 5) + digit_val (s ! 6) \<le> 12
      then Some (10 * digit_val (s ! 5) + digit_val (s ! 6) - 1)
      else None)"

definition iso_dates :: date_lib where
  "iso_dates =
     \<lparr>getMonth = iso_month,
      toLocaleDateString =
        (\<lambda>s. case iso_month s of
               None \<Rightarrow> ''Invalid Date''
             | Some m \<Rightarrow> month_names ! m @ '' '' @ take 4 s)\<rparr>"

text \<open>A sharp that reports 6000 by 4000 pixels and recompresses to a single byte.\<close>

definition sample_sharp :: sharp where
  "sample_sharp = \<lparr>metadata = (\<lambda>buf. Inr (6000, 4000)), resize_jpeg = (\<lambda>buf w h. Inr [0])\<rparr>"

definition sample_services :: "exifreader \<Rightarrow> services" where
  "sample_services r = \<lparr>exif_lib = r, sharp_lib = sample_sharp, dates = iso_dates, anthropic = True\<rparr>"

definition sample_file :: "string \<Rightarrow> upload_file" where
  "sample_file name = \<lparr>path = ''/tmp/meural-uploads/'' @ name, originalname = name, mimetype = ''image/jpeg''\<rparr>"

text \<open>
  The outside world when every call succeeds: the vendor answers with item 7, the
  geocoder with Paris, the caption backend with one text block.
\<close>

definition paris :: address where
  "paris =
     \<lparr>a_city = Some ''Paris'', a_town = None, a_village = None, a_state = None,
      a_country = Some ''France'', a_country_code = Some ''fr''\<rparr>"

definition all_fine :: file_env where
  "all_fine =
     \<lparr>readFileSync = Inr [1, 2, 3],
      fetch_items = Inr \<lparr>ok = True, json = Inr (Body (Some 7))\<rparr>,
      nominatim = Inr (Inr (GeoBody (Some paris) (Some ''Paris, Ile-de-France, France''))),
      messages_create = Inr [Some ''Golden light on rooftops''],
      put_item = None,
      current_timestamp = ''2024-07-15 12:00:00'',
      stmt_run = None,
      unlinkSync = None\<rparr>"

definition empty_db :: database where
  "empty_db = \<lparr>photos = [], sqlite_sequence = 0\<rparr>"

section \<open>Evaluation lemmas\<close>

lemmas js_defs = truthy_num_def truthy_str_def or_num_def or_str_def index_def js_div_def

lemmas chain_defs = exif_value_def exif_description_def file_value_def

lemmas sample_tag_defs = reader_of_def exif_only_def gps_only_def no_exif_def rational_tag_def

section \<open>Properties of the Metadata Extractor\<close>

text \<open>
  Whatever the image holds, the extracted exposure compensation is never the number 0:
  \<open>x / y || null\<close> turns a zero quotient into \<open>null\<close>.
\<close>

lemma exposure_compensation_never_zero:
  "exposure_compensation (extractExif lib buf name) \<noteq> Some (Fin 0)"
  by (auto simp: extractExif_def degraded_def Let_def js_defs
      split: sum.splits option.splits if_splits jsnum.splits)

text \<open>
  Latitude and longitude are null together, and then the altitude is null as well.
\<close>

lemma gps_all_or_nothing:
  "(gps_latitude (extractExif lib buf name) = None
      \<longleftrightarrow> gps_longitude (extractExif lib buf name) = None)
   \<and> (gps_latitude (extractExif lib buf name) = None
      \<longrightarrow> gps_altitude (extractExif lib buf name) = None)"
  by (auto simp: extractExif_def degraded_def Let_def js_defs
      split: sum.splits option.splits if_splits jsnum.splits)

text \<open>
  Claim C2, as stated, fails: for the aperture pair (28, 0) the extractor returns
  Infinity, not null.
\<close>

theorem aperture_zero_denominator_is_infinity:
  "aperture (extractExif (reader_of (exif_only (no_exif\<lparr>FNumber := Some (rational_tag [28, 0])\<rparr>)))
      [] ''a.jpg'') = Some PosInf
   \<and> aperture (extractExif (reader_of (exif_only (no_exif\<lparr>FNumber := Some (rational_tag [28, 0])\<rparr>)))
      [] ''a.jpg'') \<noteq> None"
  by (simp add: extractExif_def js_defs chain_defs sample_tag_defs)

text \<open>
  Claim C2, amended. When the image parses, extraction completes without an exception
  (the record carries the JSON blob, which the \<open>catch\<close> branch never does), and:
  an aperture pair \<open>(n, d)\<close> yields \<open>n / d\<close> when \<open>d\<close> is not zero, and otherwise
  +Infinity, -Infinity or NaN by the sign of \<open>n\<close>, never null; an aperture pair
  without a denominator yields NaN; an exposure-compensation pair \<open>(n, d)\<close> with \<open>n\<close>
  not zero yields \<open>n / d\<close> when \<open>d\<close> is not zero and an infinity otherwise; the pair
  \<open>(0, 0)\<close> and a pair without a denominator yield null for exposure compensation.
\<close>

theorem rational_pair_division:
  assumes "load lib buf = Inr t" and "stringify lib t = Inr j"
  shows "exif_json (extractExif lib buf name) = Some j
     \<and> (exif_value t FNumber = Some [n, d] \<longrightarrow>
          aperture (extractExif lib buf name) =
            Some (if d \<noteq> 0 then Fin (of_int n / of_int d)
                  else if 0 < n then PosInf else if n < 0 then NegInf else NaN))
     \<and> (exif_value t FNumber = Some [n] \<longrightarrow> aperture (extractExif lib buf name) = Some NaN)
     \<and> (exif_value t ExposureBiasValue = Some [n, d] \<and> n \<noteq> 0 \<longrightarrow>
          exposure_compensation (extractExif lib buf name) =
            Some (if d \<noteq> 0 then Fin (of_int n / of_int d) else if 0 < n then PosInf else NegInf))
     \<and> (exif_value t ExposureBiasValue = Some [0, 0] \<longrightarrow>
          exposure_compensation (extractExif lib buf name) = None)
     \<and> (exif_value t ExposureBiasValue = Some [n] \<longrightarrow>
          exposure_compensation (extractExif lib buf name) = None)"
  using assms
  by (auto simp: extractExif_def Let_def js_defs)

text \<open>
  Witness for C2: the pairs (28, 10) and (-2, 3) give 2.8 and -2/3; an aperture
  without denominator gives NaN; the exposure pairs (0, 0) and (5) give null.
\<close>

theorem rational_pair_division_witness:
  "aperture (extractExif (reader_of (exif_only (no_exif\<lparr>FNumber := Some (rational_tag [28, 10]),
        ExposureBiasValue := Some (rational_tag [-2, 3])\<rparr>))) [] ''a.jpg'') = Some (Fin (28 / 10))
   \<and> exposure_compensation (extractExif (reader_of (exif_only (no_exif\<lparr>FNumber := Some (rational_tag [28, 10]),
        ExposureBiasValue := Some (rational_tag [-2, 3])\<rparr>))) [] ''a.jpg'') = Some (Fin (- 2 / 3))
   \<and> aperture (extractExif (reader_of (exif_only (no_exif\<lparr>FNumber := Some (rational_tag [28]),
        ExposureBiasValue := Some (rational_tag [0, 0])\<rparr>))) [] ''b.jpg'') = Some NaN
   \<and> exposure_compensation (extractExif (reader_of (exif_only (no_exif\<lparr>FNumber := Some (rational_tag [28]),
        ExposureBiasValue := Some (rational_tag [0, 0])\<rparr>))) [] ''b.jpg'') = None
   \<and> exposure_compensation (extractExif (reader_of (exif_only
        (no_exif\<lparr>ExposureBiasValue := Some (rational_tag [5])\<rparr>))) [] ''c.jpg'') = None"
proof -
  let ?a = "exif_only (no_exif\<lparr>FNumber := Some (rational_tag [28, 10]),
        ExposureBiasValue := Some (rational_tag [-2, 3])\<rparr>)"
  let ?b = "exif_only (no_exif\<lparr>FNumber := Some (rational_tag [28]),
        ExposureBiasValue := Some (rational_tag [0, 0])\<rparr>)"
  let ?c = "exif_only (no_exif\<lparr>ExposureBiasValue := Some (rational_tag [5])\<rparr>)"
  have la: "load (reader_of ?a) [] = Inr ?a" and sa: "stringify (reader_of ?a) ?a = Inr ''{}''"
    by (simp_all add: reader_of_def)
  have lb: "load (reader_of ?b) [] = Inr ?b" and sb: "stringify (reader_of ?b) ?b = Inr ''{}''"
    by (simp_all add: reader_of_def)
  have lc: "load (reader_of ?c) [] = Inr ?c" and sc: "stringify (reader_of ?c) ?c = Inr ''{}''"
    by (simp_all add: reader_of_def)
  have fa: "exif_value ?a FNumber = Some [28, 10]"
    and ea: "exif_value ?a ExposureBiasValue = Some [-2, 3] \<and> (-2::int) \<noteq> 0"
    and fb: "exif_value ?b FNumber = Some [28]"
    and eb: "exif_value ?b ExposureBiasValue = Some [0, 0]"
    and ec: "exif_value ?c ExposureBiasValue = Some [5]"
    by (simp_all add: chain_defs sample_tag_defs)
  show ?thesis
    using rational_pair_division [OF la sa, where n = 28 and d = 10 and name = "''a.jpg''"]
      rational_pair_division [OF la sa, where n = "-2" and d = 3 and name = "''a.jpg''"]
      rational_pair_division [OF lb sb, where n = 28 and name = "''b.jpg''"]
      rational_pair_division [OF lc sc, where n = 5 and name = "''c.jpg''"]
      fa ea fb eb ec
    by simp
qed

text \<open>
  Claim C3 fails on the code. For an image whose exposure compensation is the pair
  (0, 1), that is the number zero, the extractor stores null, while the aperture pair
  (0, 1) of the same image is stored as 0.
\<close>

theorem zero_exposure_compensation_stored_as_null:
  "exposure_compensation
     (extractExif (reader_of (exif_only (no_exif\<lparr>FNumber := Some (rational_tag [0, 1]),
        ExposureBiasValue := Some (rational_tag [0, 1])\<rparr>))) [] ''a.jpg'') = None
   \<and> aperture
     (extractExif (reader_of (exif_only (no_exif\<lparr>FNumber := Some (rational_tag [0, 1]),
        ExposureBiasValue := Some (rational_tag [0, 1])\<rparr>))) [] ''a.jpg'') = Some (Fin 0)"
  by (simp add: extractExif_def js_defs chain_defs sample_tag_defs)

text \<open>
  Claim C9 fails on the code. For an image on the equator, with latitude 0, longitude
  30 and altitude 12 all present, the extractor leaves the three GPS fields null.
\<close>

theorem gps_on_equator_not_populated:
  "gps_latitude (extractExif (reader_of (gps_only
      \<lparr>Latitude = Some (Fin 0), Longitude = Some (Fin 30), Altitude = Some (Fin 12)\<rparr>)) [] ''a.jpg'') = None
   \<and> gps_longitude (extractExif (reader_of (gps_only
      \<lparr>Latitude = Some (Fin 0), Longitude = Some (Fin 30), Altitude = Some (Fin 12)\<rparr>)) [] ''a.jpg'') = None
   \<and> gps_altitude (extractExif (reader_of (gps_only
      \<lparr>Latitude = Some (Fin 0), Longitude = Some (Fin 30), Altitude = Some (Fin 12)\<rparr>)) [] ''a.jpg'') = None"
  by (simp add: extractExif_def js_defs chain_defs sample_tag_defs)

section \<open>Properties of the Image Normalizer\<close>





section \<open>Properties of the Description Composer\<close>
















section \<open>Properties of the Upload Orchestrator\<close>

text \<open>The entry pushed by the \<open>try\<close> block names the file and reports \<open>response.ok\<close>.\<close>

lemma filename_pushed_entry:
  "filename (pushed_entry cx f response body resizeResult exifData en) = originalname f"
  by (simp add: pushed_entry_def Let_def)


text \<open>
  The \<open>try\<close> block either throws before it has pushed anything, or pushes exactly one
  entry for the file and then throws only if unlinking the temporary file does.
\<close>

lemma try_block_shape:
  "case try_block cx db f ev of
     (thrown, db', pushed) \<Rightarrow>
       (pushed = [] \<and> thrown \<noteq> None)
       \<or> (length pushed = 1 \<and> map filename pushed = [originalname f] \<and> thrown = unlinkSync ev)"
  unfolding try_block_def Let_def
  by (simp add: filename_pushed_entry split: sum.splits option.splits upload_body.splits)

text \<open>
  One iteration pushes one entry for its file, or two when the entry was pushed and
  unlinking the temporary file threw afterwards.
\<close>

lemma process_file_shape:
  "map filename (snd (process_file cx db f ev)) = [originalname f]
   \<or> (unlinkSync ev \<noteq> None
       \<and> map filename (snd (process_file cx db f ev)) = [originalname f, originalname f])"
proof -
  obtain thrown db' pushed where t: "try_block cx db f ev = (thrown, db', pushed)"
    by (cases "try_block cx db f ev") auto
  with try_block_shape [where cx = cx and db = db and f = f and ev = ev]
  have "(pushed = [] \<and> thrown \<noteq> None)
      \<or> (length pushed = 1 \<and> map filename pushed = [originalname f] \<and> thrown = unlinkSync ev)"
    by simp
  then show ?thesis
  proof
    assume "pushed = [] \<and> thrown \<noteq> None"
    then obtain msg where "thrown = Some msg" and "pushed = []" by auto
    with t show ?thesis by (simp add: process_file_def failure_entry_def)
  next
    assume a: "length pushed = 1 \<and> map filename pushed = [originalname f] \<and> thrown = unlinkSync ev"
    show ?thesis
    proof (cases "unlinkSync ev")
      case None
      with a t show ?thesis by (simp add: process_file_def)
    next
      case (Some msg)
      with a t show ?thesis by (simp add: process_file_def failure_entry_def)
    qed
  qed
qed

text \<open>The loop goes on with the next file whatever the iteration did.\<close>

lemma upload_loop_snd:
  "snd (upload_loop cx ((f, ev) # rest) (db, results))
     = snd (upload_loop cx rest (fst (process_file cx db f ev), results @ snd (process_file cx db f ev)))"
  by (simp split: prod.splits)

text \<open>
  When no unlink throws, the loop appends one entry per file, in the order of the files.
\<close>

lemma upload_loop_filenames:
  "list_all (\<lambda>(f, ev). unlinkSync ev = None) fs \<Longrightarrow>
     map filename (snd (upload_loop cx fs (db, results)))
       = map filename results @ map (\<lambda>(f, ev). originalname f) fs"
proof (induction fs arbitrary: db results)
  case Nil
  then show ?case by simp
next
  case (Cons p fs)
  obtain f ev where p: "p = (f, ev)" by (cases p)
  with Cons.prems have u: "unlinkSync ev = None" and rest: "list_all (\<lambda>(f, ev). unlinkSync ev = None) fs"
    by simp_all
  from u process_file_shape [where cx = cx and db = db and f = f and ev = ev]
  have one: "map filename (snd (process_file cx db f ev)) = [originalname f]" by simp
  show ?case
    unfolding p upload_loop_snd
    by (simp add: Cons.IH [OF rest] one)
qed

text \<open>In general every file gets at least one entry and at most two.\<close>

lemma upload_loop_length:
  "length results + length fs \<le> length (snd (upload_loop cx fs (db, results)))
   \<and> length (snd (upload_loop cx fs (db, results))) \<le> length results + 2 * length fs"
proof (induction fs arbitrary: db results)
  case Nil
  then show ?case by simp
next
  case (Cons p fs)
  obtain f ev where p: "p = (f, ev)" by (cases p)
  from process_file_shape [where cx = cx and db = db and f = f and ev = ev]
  have "length (map filename (snd (process_file cx db f ev))) \<in> {1, 2}" by auto
  then have len: "length (snd (process_file cx db f ev)) \<in> {1, 2}" by simp
  show ?case
    unfolding p upload_loop_snd
    using Cons.IH [where results = "results @ snd (process_file cx db f ev)" and db = "fst (process_file cx db f ev)"] len
    by auto
qed

text \<open>
  Once the token is there and \<open>req.files\<close> is a list, the handler answers with the
  results of the loop, never with a 500.
\<close>

lemma upload_returns_results:
  "\<exists>results. snd (upload cx db (Inr tok) (Some fs)) = Inr results
     \<and> results = snd (upload_loop cx fs (db, []))"
  by (simp add: upload_def split: prod.splits)

text \<open>
  The part of claim C1 that holds: when unlinking the temporary file never throws, the
  results have one entry per file, in input order, whatever else fails.
\<close>

lemma upload_one_entry_per_file_when_unlink_succeeds:
  assumes "list_all (\<lambda>(f, ev). unlinkSync ev = None) fs"
  shows "\<exists>results. snd (upload cx db (Inr tok) (Some fs)) = Inr results
     \<and> length results = length fs
     \<and> map filename results = map (\<lambda>(f, ev). originalname f) fs"
proof -
  from upload_returns_results [where cx = cx and db = db and tok = tok and fs = fs]
  obtain results where r: "snd (upload cx db (Inr tok) (Some fs)) = Inr results"
    "results = snd (upload_loop cx fs (db, []))" by blast
  from upload_loop_filenames [OF assms, where cx = cx and db = db and results = "[]"] r(2)
  have m: "map filename results = map (\<lambda>(f, ev). originalname f) fs" by simp
  then have "length (map filename results) = length (map (\<lambda>(f, ev). originalname f) fs)" by simp
  then have "length results = length fs" by simp
  with r(1) m show ?thesis by blast
qed

text \<open>The definitions unfolded to run the handler on the sample inputs.\<close>

lemmas sample_env_defs = sample_services_def sample_sharp_def iso_dates_def sample_file_def
  all_fine_def paris_def empty_db_def MAX_FILE_SIZE_def

lemmas pipeline_defs = upload_def process_file_def try_block_def enrich_def pushed_entry_def
  failure_entry_def resizeIfNeeded_def reverseGeocode_def analyzeImageWithVision_def
  generateSmartDescription_def getSeason_def push_if_def savePhotoExif_def bind_num_def

text \<open>
  Claim C1 fails on the code. For a batch of one file for which every step succeeds but
  \<open>fs.unlinkSync\<close> throws after the entry has been pushed, the \<open>catch\<close> pushes a second
  entry: the results hold two entries for the one file, a success and a failure.
\<close>

theorem unlink_failure_pushes_second_entry:
  "map_sum (\<lambda>e. e) (map (\<lambda>r. (filename r, success r)))
     (snd (upload (sample_services (reader_of (exif_only no_exif))) empty_db (Inr ''token'')
        (Some [(sample_file ''a.jpg'', all_fine\<lparr>unlinkSync := Some ''ENOENT''\<rparr>)])))
   = Inr [(''a.jpg'', True), (''a.jpg'', False)]"
  by (simp add: pipeline_defs sample_env_defs extractExif_def js_defs chain_defs sample_tag_defs
      Let_def trim_def is_space_def)











section \<open>Properties of the Metadata Store\<close>







end
